theory Spec2Isabelle
  imports Main
begin

section \<open>JavaScript values\<close>

text \<open>
  The handler builds a plain JavaScript object and hands it to the payments SDK. Objects
  are association lists in insertion order; a string of the model is a JavaScript string,
  one \<^typ>\<open>char\<close> standing for one code unit, so that \<^term>\<open>length\<close> is
  the \<^verbatim>\<open>.length\<close> that the validation library compares.
\<close>

datatype jsval =
    JUndefined
  | JBool bool
  | JNum int
  | JStr string
  | JObj "(string \<times> jsval) list"

fun truthy :: "jsval \<Rightarrow> bool" where
  "truthy JUndefined = False"
| "truthy (JBool b) = b"
| "truthy (JNum n) = (n \<noteq> 0)"
| "truthy (JStr s) = (s \<noteq> [])"
| "truthy (JObj ps) = True"

text \<open>\<^verbatim>\<open>a && b\<close>: the left operand when it is falsy, the right one otherwise.\<close>

definition js_and :: "jsval \<Rightarrow> jsval \<Rightarrow> jsval" where
  "js_and a b = (if truthy a then b else a)"

text \<open>Decimal rendering of a number inside a template string.\<close>

definition digit_char :: "nat \<Rightarrow> char" where
  "digit_char d = ''0123456789'' ! (d mod 10)"

function show_nat :: "nat \<Rightarrow> string" where
  "show_nat n = (if n < 10 then [digit_char n] else show_nat (n div 10) @ [digit_char n])"
  by pat_completeness auto
termination
  by (relation "measure id") auto

declare show_nat.simps [simp del]

text \<open>
  Assigning a property: an existing key keeps its position and takes the new value, a new
  key goes to the end.
\<close>

fun set_prop :: "string \<Rightarrow> jsval \<Rightarrow> (string \<times> jsval) list \<Rightarrow> (string \<times> jsval) list" where
  "set_prop k v [] = [(k, v)]"
| "set_prop k v ((k', v') # ps) =
     (if k = k' then (k, v) # ps else (k', v') # set_prop k v ps)"

text \<open>
  The own enumerable properties that \<^verbatim>\<open>...x\<close> copies: those of an object, the
  indexed characters of a string, none of \<^verbatim>\<open>undefined\<close>, a boolean or a number.
\<close>

fun own_props :: "jsval \<Rightarrow> (string \<times> jsval) list" where
  "own_props (JObj ps) = ps"
| "own_props (JStr s) = map (\<lambda>(i, c). (show_nat i, JStr [c])) (enumerate 0 s)"
| "own_props JUndefined = []"
| "own_props (JBool b) = []"
| "own_props (JNum n) = []"

text \<open>
  An object literal is a sequence of entries, \<^verbatim>\<open>key: value\<close> or
  \<^verbatim>\<open>...value\<close>, evaluated from left to right into an initially empty object.
\<close>

datatype entry = Prop string jsval | Spread jsval

fun add_entry :: "(string \<times> jsval) list \<Rightarrow> entry \<Rightarrow> (string \<times> jsval) list" where
  "add_entry ps (Prop k v) = set_prop k v ps"
| "add_entry ps (Spread x) = foldl (\<lambda>qs (k, v). set_prop k v qs) ps (own_props x)"

definition object :: "entry list \<Rightarrow> jsval" where
  "object es = JObj (foldl add_entry [] es)"

text \<open>Reading a property, and a chain of properties, of a value.\<close>

fun get_prop :: "string \<Rightarrow> jsval \<Rightarrow> jsval option" where
  "get_prop k (JObj ps) = map_of ps k"
| "get_prop k JUndefined = None"
| "get_prop k (JBool b) = None"
| "get_prop k (JNum n) = None"
| "get_prop k (JStr s) = None"

fun get_path :: "string list \<Rightarrow> jsval \<Rightarrow> jsval option" where
  "get_path [] v = Some v"
| "get_path (k # ks) v = (case get_prop k v of None \<Rightarrow> None | Some w \<Rightarrow> get_path ks w)"

fun keys :: "jsval \<Rightarrow> string list" where
  "keys (JObj ps) = map fst ps"
| "keys JUndefined = []"
| "keys (JBool b) = []"
| "keys (JNum n) = []"
| "keys (JStr s) = []"


section \<open>The validation library\<close>

text \<open>
  A field schema of the validation library, as far as the two forms use it: whether
  \<^verbatim>\<open>undefined\<close> is refused (and with which message), and the tests that run on a
  present value, in the order in which the schema was built. A test carries its message,
  which may mention the field's path, and the predicate a value has to satisfy.

  Validation with \<^verbatim>\<open>abortEarly: false\<close> runs every test and collects the messages
  of all that fail. An absent value fails the presence check alone: the other tests skip
  absent values.
\<close>

record 'a schema =
  presence :: "string option"
  tests :: "((string \<Rightarrow> string) \<times> ('a \<Rightarrow> bool)) list"

definition mixed :: "'a schema" where
  "mixed = \<lparr>presence = None, tests = []\<rparr>"

definition add_test :: "(string \<Rightarrow> string) \<Rightarrow> ('a \<Rightarrow> bool) \<Rightarrow> 'a schema \<Rightarrow> 'a schema" where
  "add_test msg ok s = s\<lparr>tests := tests s @ [(msg, ok)]\<rparr>"

text \<open>\<^verbatim>\<open>Yup.string()\<close> and \<^verbatim>\<open>Yup.boolean()\<close>.\<close>

definition yup_string :: "string schema" where
  "yup_string = mixed"

definition yup_boolean :: "bool schema" where
  "yup_boolean = mixed"

text \<open>\<^verbatim>\<open>.max(n)\<close> with the library's default message.\<close>

definition max_chars :: "nat \<Rightarrow> string schema \<Rightarrow> string schema" where
  "max_chars n = add_test (\<lambda>path. path @ '' must be at most '' @ show_nat n @ '' characters'')
                          (\<lambda>v. length v \<le> n)"

text \<open>\<^verbatim>\<open>.min(n, message)\<close>.\<close>

definition min_chars :: "nat \<Rightarrow> string \<Rightarrow> string schema \<Rightarrow> string schema" where
  "min_chars n msg = add_test (\<lambda>path. msg) (\<lambda>v. n \<le> length v)"

text \<open>
  \<^verbatim>\<open>.matches(/[...]/, message)\<close> for a regular expression that is one character
  class: the value has a character of the class somewhere.
\<close>

definition matches :: "(char \<Rightarrow> bool) \<Rightarrow> string \<Rightarrow> string schema \<Rightarrow> string schema" where
  "matches cls msg = add_test (\<lambda>path. msg) (\<lambda>v. list_ex cls v)"

text \<open>
  \<^verbatim>\<open>.required(message)\<close>: \<^verbatim>\<open>undefined\<close> is refused; a string schema also
  refuses the empty string, by a test of its own with the same message.
\<close>

definition required :: "string \<Rightarrow> 'a schema \<Rightarrow> 'a schema" where
  "required msg s = s\<lparr>presence := Some msg\<rparr>"

definition string_required :: "string \<Rightarrow> string schema \<Rightarrow> string schema" where
  "string_required msg s = add_test (\<lambda>path. msg) (\<lambda>v. v \<noteq> []) (required msg s)"

text \<open>A chain of builder calls, applied from left to right.\<close>

definition chain :: "'a schema \<Rightarrow> ('a schema \<Rightarrow> 'a schema) list \<Rightarrow> 'a schema" where
  "chain s fs = foldl (\<lambda>t f. f t) s fs"

definition validate_field :: "string \<Rightarrow> 'a schema \<Rightarrow> 'a option \<Rightarrow> string list" where
  "validate_field path s value =
     (case value of
        None \<Rightarrow> (case presence s of None \<Rightarrow> [] | Some msg \<Rightarrow> [msg])
      | Some v \<Rightarrow> map (\<lambda>(msg, ok). msg path) (filter (\<lambda>(msg, ok). \<not> ok v) (tests s)))"

text \<open>
  The message of the error that \<^verbatim>\<open>validate\<close> throws: the failure's own message
  when there is one failure, a count of the failures when there are several.
\<close>

fun validation_message :: "string list \<Rightarrow> string" where
  "validation_message [e] = e"
| "validation_message es = show_nat (length es) @ '' errors occurred''"

text \<open>\<^verbatim>\<open>validate\<close>: returns when no test failed, throws the collected failures otherwise.\<close>

definition validate :: "string list \<Rightarrow> string + unit" where
  "validate es = (if es = [] then Inr () else Inl (validation_message es))"


section \<open>The registration page: password rules\<close>

definition getCharacterValidationError :: "string \<Rightarrow> string" where
  "getCharacterValidationError str = ''Your password must have at least 1 '' @ str @ '' character''"

definition is_digit :: "char \<Rightarrow> bool" where
  "is_digit c = (c \<in> set ''0123456789'')"

definition is_lower :: "char \<Rightarrow> bool" where
  "is_lower c = (c \<in> set ''abcdefghijklmnopqrstuvwxyz'')"

definition is_upper :: "char \<Rightarrow> bool" where
  "is_upper c = (c \<in> set ''ABCDEFGHIJKLMNOPQRSTUVWXYZ'')"

definition password_schema :: "string schema" where
  "password_schema =
     chain yup_string
       [max_chars 255,
        string_required ''Password is required'',
        min_chars 8 ''Password must have at least 8 characters'',
        matches is_digit (getCharacterValidationError ''digit''),
        matches is_lower (getCharacterValidationError ''lowercase''),
        matches is_upper (getCharacterValidationError ''uppercase'')]"

text \<open>
  All violations of a submitted password, in the order of the rules: the form runs the
  schema with every failure collected.
\<close>

definition password_errors :: "string option \<Rightarrow> string list" where
  "password_errors pw = validate_field ''password'' password_schema pw"


section \<open>The onboarding endpoint\<close>

text \<open>
  What the session provider returns for an authenticated request, what JavaScript throws,
  the request as far as the handler reads it, and the response envelope
  \<^verbatim>\<open>{ success, data?: { redirectUrl }, error?: { message, details? } }\<close>.
  A missing optional key is \<^term>\<open>None\<close>. The body's fields have the types the
  handler declares for them; a body that is \<^verbatim>\<open>null\<close> or
  \<^verbatim>\<open>undefined\<close> is \<^term>\<open>None\<close>.
\<close>

record session =
  email :: string
  accountId :: string

record exn =
  exn_message :: string
  exn_stack :: "string option"

record onboard_body =
  businessName :: "string option"
  skipOnboarding :: "bool option"

record request =
  http_method :: "string option"
  body :: "onboard_body option"

record error_body =
  message :: string
  details :: "string option"

record redirect =
  redirectUrl :: string

record api_response =
  success :: bool
  data :: "redirect option"
  error :: "error_body option"

record response =
  status :: nat
  json :: api_response

text \<open>The requests that the handler sends to the payments platform, in the order sent.\<close>

datatype call =
    AccountsUpdate string jsval
  | CreateAccountOnboardingUrl string

text \<open>
  The surroundings of the handler, taken as parameters: the demo-mode switch and the
  terms-of-service constant of \<^verbatim>\<open>demo-helpers\<close>, the session lookup, the two
  requests to the payments platform, each of which returns or throws, and the
  \<^verbatim>\<open>TypeError\<close> that destructuring an absent body throws.
\<close>

record env =
  isDemoMode :: bool
  TOS_ACCEPTANCE :: jsval
  getSessionForServerSide :: "request \<Rightarrow> exn + session"
  accounts_update :: "string \<Rightarrow> jsval \<Rightarrow> exn + unit"
  createAccountOnboardingUrl :: "string \<Rightarrow> exn + string"
  body_type_error :: exn

text \<open>
  Modelled from the spec: \<^verbatim>\<open>apiResponse\<close> of \<^verbatim>\<open>src/types/api-response\<close>,
  which is not among the sources. The spec gives the envelope's shape only, so the helper
  returns the envelope it is given.
\<close>

definition apiResponse :: "api_response \<Rightarrow> api_response" where
  "apiResponse r = r"

definition js_string :: "string option \<Rightarrow> jsval" where
  "js_string v = (case v of None \<Rightarrow> JUndefined | Some s \<Rightarrow> JStr s)"

definition js_bool :: "bool option \<Rightarrow> jsval" where
  "js_bool v = (case v of None \<Rightarrow> JUndefined | Some b \<Rightarrow> JBool b)"

text \<open>
  The schema is an object schema of one field, or of two in demo mode; the failures of the
  fields come in the order of the fields.
\<close>

definition validationSchema :: "bool \<Rightarrow> onboard_body \<Rightarrow> string list" where
  "validationSchema demo input =
     validate_field ''businessName''
       (chain yup_string [max_chars 255, string_required ''Business name is required''])
       (businessName input)
     @ (if demo
        then validate_field ''skipOnboarding''
               (chain yup_boolean [required ''Skip onboarding choice required''])
               (skipOnboarding input)
        else [])"

definition onboardingData :: "env \<Rightarrow> string \<Rightarrow> jsval \<Rightarrow> jsval \<Rightarrow> jsval" where
  "onboardingData env email' businessName' skipOnboarding' =
     object
       [Prop ''business_profile'' (object [Prop ''name'' businessName']),
        Spread (js_and (JBool (isDemoMode env))
          (object
            [Prop ''business_type'' (JStr ''individual''),
             Prop ''business_profile''
               (object
                 [Prop ''mcc'' (JStr ''5734''),
                  Prop ''product_description'' (JStr ''Some demo product''),
                  Prop ''url'' (JStr ''https://some-company.com'')]),
             Prop ''individual''
               (object
                 [Prop ''address''
                    (object
                      [Prop ''line1'' (JStr ''address_full_match''),
                       Prop ''city'' (JStr ''South San Francisco''),
                       Prop ''state'' (JStr ''CA''),
                       Prop ''postal_code'' (JStr ''94080''),
                       Prop ''country'' (JStr ''US'')]),
                  Prop ''dob''
                    (object [Prop ''day'' (JNum 1), Prop ''month'' (JNum 1), Prop ''year'' (JNum 1901)]),
                  Prop ''email'' (JStr email'),
                  Prop ''first_name'' (JStr ''John''),
                  Prop ''last_name'' (JStr ''Smith''),
                  Prop ''phone'' (JStr ''0000000000'')]),
             Spread (js_and skipOnboarding'
               (object [Prop ''tos_acceptance'' (TOS_ACCEPTANCE env)])),
             Prop ''settings''
               (object
                 [Prop ''card_issuing'' (object [Prop ''tos_acceptance'' (TOS_ACCEPTANCE env)]),
                  Prop ''treasury'' (object [Prop ''tos_acceptance'' (TOS_ACCEPTANCE env)])])]))]"

definition redirect_response :: "string \<Rightarrow> response" where
  "redirect_response url =
     \<lparr>status = 200,
      json = apiResponse \<lparr>success = True, data = Some \<lparr>redirectUrl = url\<rparr>, error = None\<rparr>\<rparr>"

definition error_response :: "nat \<Rightarrow> string \<Rightarrow> string option \<Rightarrow> response" where
  "error_response code msg stack =
     \<lparr>status = code,
      json = apiResponse
        \<lparr>success = False, data = None, error = Some \<lparr>message = msg, details = stack\<rparr>\<rparr>\<rparr>"

text \<open>
  \<^verbatim>\<open>onboard\<close>: the requests sent to the payments platform, and the response, or the
  exception that leaves the function.
\<close>

definition onboard :: "env \<Rightarrow> request \<Rightarrow> call list \<times> (exn + response)" where
  "onboard env req =
     (case getSessionForServerSide env req of
        Inl e \<Rightarrow> ([], Inl e)
      | Inr session \<Rightarrow>
          (case body req of
             None \<Rightarrow> ([], Inl (body_type_error env))
           | Some b \<Rightarrow>
               (case validate (validationSchema (isDemoMode env) b) of
                  Inl msg \<Rightarrow> ([], Inr (error_response 400 msg None))
                | Inr _ \<Rightarrow>
                    (let onboardingData' =
                           onboardingData env (email session) (js_string (businessName b))
                             (js_bool (skipOnboarding b));
                         update = AccountsUpdate (accountId session) onboardingData'
                     in case accounts_update env (accountId session) onboardingData' of
                          Inl e \<Rightarrow> ([update], Inl e)
                        | Inr _ \<Rightarrow>
                            if isDemoMode env \<and> truthy (js_bool (skipOnboarding b))
                            then ([update], Inr (redirect_response ''/''))
                            else
                              (case createAccountOnboardingUrl env (accountId session) of
                                 Inl e \<Rightarrow>
                                   ([update, CreateAccountOnboardingUrl (accountId session)], Inl e)
                               | Inr onboardingUrl \<Rightarrow>
                                   ([update, CreateAccountOnboardingUrl (accountId session)],
                                    Inr (redirect_response onboardingUrl)))))))"

text \<open>\<^verbatim>\<open>handler\<close>: the dispatch on the method, inside the catch-all.\<close>

definition handler :: "env \<Rightarrow> request \<Rightarrow> call list \<times> response" where
  "handler env req =
     (if http_method req = Some ''POST''
      then (case onboard env req of
              (calls, Inr res) \<Rightarrow> (calls, res)
            | (calls, Inl e) \<Rightarrow> (calls, error_response 500 (exn_message e) (exn_stack e)))
      else ([], error_response 400 ''Bad Request'' None))"


section \<open>Example surroundings\<close>

text \<open>
  Surroundings in which the session is found and the payments platform answers every
  request, and a POST request with a given body; the concrete runs below start from them.
\<close>

definition example_session :: session where
  "example_session = \<lparr>email = ''jo@example.com'', accountId = ''acct_1''\<rparr>"

definition example_env :: "bool \<Rightarrow> env" where
  "example_env demo =
     \<lparr>isDemoMode = demo,
      TOS_ACCEPTANCE = JObj [(''date'', JNum 1700000000), (''ip'', JStr ''127.0.0.1'')],
      getSessionForServerSide = (\<lambda>req. Inr example_session),
      accounts_update = (\<lambda>account params. Inr ()),
      createAccountOnboardingUrl = (\<lambda>account. Inr ''https://connect.example/setup/acct_1''),
      body_type_error =
        \<lparr>exn_message = ''Cannot destructure property of null'', exn_stack = None\<rparr>\<rparr>"

definition example_post :: "string option \<Rightarrow> bool option \<Rightarrow> request" where
  "example_post name skip =
     \<lparr>http_method = Some ''POST'', body = Some \<lparr>businessName = name, skipOnboarding = skip\<rparr>\<rparr>"


section \<open>Evaluating the schemas\<close>

lemmas schema_defs =
  chain_def yup_string_def yup_boolean_def mixed_def add_test_def max_chars_def min_chars_def
  matches_def required_def string_required_def validate_field_def

lemmas char_class_defs = is_digit_def is_lower_def is_upper_def

lemmas response_defs = error_response_def redirect_response_def apiResponse_def

lemma show_nat_255: "show_nat 255 = ''255''"
  by (simp add: show_nat.simps [of 255] show_nat.simps [of 25] show_nat.simps [of 2] digit_char_def)

lemma validation_message_two: "validation_message [e1, e2] = ''2 errors occurred''"
  by (simp add: show_nat.simps [of "Suc (Suc 0)"] digit_char_def)

lemma businessName_errors:
  "validate_field ''businessName''
     (chain yup_string [max_chars 255, string_required ''Business name is required'']) v =
   (case v of
      None \<Rightarrow> [''Business name is required'']
    | Some name \<Rightarrow>
        (if length name \<le> 255 then [] else [''businessName must be at most 255 characters''])
        @ (if name \<noteq> [] then [] else [''Business name is required'']))"
  by (simp add: schema_defs show_nat_255 split: option.split)

lemma skipOnboarding_errors:
  "validate_field ''skipOnboarding''
     (chain yup_boolean [required ''Skip onboarding choice required'']) v =
   (case v of None \<Rightarrow> [''Skip onboarding choice required''] | Some c \<Rightarrow> [])"
  by (simp add: schema_defs split: option.split)

lemma validationSchema_eq:
  "validationSchema demo b =
     (case businessName b of
        None \<Rightarrow> [''Business name is required'']
      | Some name \<Rightarrow>
          (if length name \<le> 255 then [] else [''businessName must be at most 255 characters''])
          @ (if name \<noteq> [] then [] else [''Business name is required'']))
     @ (if demo
        then (case skipOnboarding b of None \<Rightarrow> [''Skip onboarding choice required''] | Some c \<Rightarrow> [])
        else [])"
  by (simp only: validationSchema_def businessName_errors skipOnboarding_errors)

text \<open>
  A body passes validation exactly when its business name is present, not empty and at
  most 255 characters long and, in demo mode, the skip-onboarding choice is present.
\<close>

lemma valid_iff:
  "validationSchema demo b = [] \<longleftrightarrow>
     (\<exists>name. businessName b = Some name \<and> name \<noteq> [] \<and> length name \<le> 255)
     \<and> (demo \<longrightarrow> skipOnboarding b \<noteq> None)"
  by (auto simp: validationSchema_eq split: option.splits)

lemma validate_Inr_iff: "validate es = Inr u \<longleftrightarrow> es = []"
  by (simp add: validate_def)

lemma validate_Inl_iff: "validate es = Inl msg \<longleftrightarrow> es \<noteq> [] \<and> msg = validation_message es"
  by (auto simp: validate_def)

lemma truthy_js_bool: "truthy (js_bool skip) \<longleftrightarrow> skip = Some True"
  by (simp add: js_bool_def split: option.split)


section \<open>Evaluating the update payload\<close>

text \<open>
  Outside demo mode the spread copies nothing. In demo mode it assigns
  \<^verbatim>\<open>business_profile\<close> a second time, so the key keeps its first position and
  holds the second object.
\<close>

lemma onboardingData_plain:
  "\<not> isDemoMode env \<Longrightarrow>
   onboardingData env em name skip = JObj [(''business_profile'', JObj [(''name'', name)])]"
  by (simp add: onboardingData_def object_def js_and_def)

lemma onboardingData_demo:
  "isDemoMode env \<Longrightarrow>
   onboardingData env em name skip =
     JObj ([(''business_profile'',
             JObj [(''mcc'', JStr ''5734''),
                   (''product_description'', JStr ''Some demo product''),
                   (''url'', JStr ''https://some-company.com'')]),
            (''business_type'', JStr ''individual''),
            (''individual'',
             JObj [(''address'',
                    JObj [(''line1'', JStr ''address_full_match''),
                          (''city'', JStr ''South San Francisco''),
                          (''state'', JStr ''CA''),
                          (''postal_code'', JStr ''94080''),
                          (''country'', JStr ''US'')]),
                   (''dob'', JObj [(''day'', JNum 1), (''month'', JNum 1), (''year'', JNum 1901)]),
                   (''email'', JStr em),
                   (''first_name'', JStr ''John''),
                   (''last_name'', JStr ''Smith''),
                   (''phone'', JStr ''0000000000'')])]
           @ (if truthy skip then [(''tos_acceptance'', TOS_ACCEPTANCE env)] else [])
           @ [(''settings'',
               JObj [(''card_issuing'', JObj [(''tos_acceptance'', TOS_ACCEPTANCE env)]),
                     (''treasury'', JObj [(''tos_acceptance'', TOS_ACCEPTANCE env)])])])"
  by (cases skip) (simp_all add: onboardingData_def object_def js_and_def)


text \<open>
  So no demo-mode payload has a \<^verbatim>\<open>business_profile.name\<close>, whatever was
  submitted, and every other payload has it.
\<close>

lemma onboardingData_name:
  "get_path [''business_profile'', ''name''] (onboardingData env em name skip) =
     (if isDemoMode env then None else Some name)"
  by (simp add: onboardingData_demo onboardingData_plain)


section \<open>The two outcomes of validation inside \<open>onboard\<close>\<close>

lemma onboard_invalid:
  assumes "body req = Some b" and "validationSchema (isDemoMode env) b \<noteq> []"
  shows "onboard env req =
           (case getSessionForServerSide env req of
              Inl e \<Rightarrow> ([], Inl e)
            | Inr s \<Rightarrow> ([], Inr (error_response 400
                                   (validation_message (validationSchema (isDemoMode env) b)) None)))"
  using assms by (simp add: onboard_def validate_def split: sum.split)

lemma onboard_valid:
  assumes "body req = Some b" and "validationSchema (isDemoMode env) b = []"
    and "getSessionForServerSide env req = Inr s"
  shows "onboard env req =
           (let payload = onboardingData env (email s) (js_string (businessName b))
                            (js_bool (skipOnboarding b));
                update = AccountsUpdate (accountId s) payload
            in case accounts_update env (accountId s) payload of
                 Inl e \<Rightarrow> ([update], Inl e)
               | Inr u \<Rightarrow>
                   if isDemoMode env \<and> truthy (js_bool (skipOnboarding b))
                   then ([update], Inr (redirect_response ''/''))
                   else (case createAccountOnboardingUrl env (accountId s) of
                           Inl e \<Rightarrow> ([update, CreateAccountOnboardingUrl (accountId s)], Inl e)
                         | Inr onboardingUrl \<Rightarrow>
                             ([update, CreateAccountOnboardingUrl (accountId s)],
                              Inr (redirect_response onboardingUrl))))"
  using assms by (simp add: onboard_def validate_def)

lemma example_env_simps:
  "isDemoMode (example_env demo) = demo"
  "TOS_ACCEPTANCE (example_env demo) = JObj [(''date'', JNum 1700000000), (''ip'', JStr ''127.0.0.1'')]"
  "getSessionForServerSide (example_env demo) req = Inr example_session"
  "accounts_update (example_env demo) account params = Inr ()"
  "createAccountOnboardingUrl (example_env demo) account = Inr ''https://connect.example/setup/acct_1''"
  by (simp_all add: example_env_def)

lemma example_post_simps:
  "http_method (example_post name skip) = Some ''POST''"
  "body (example_post name skip) = Some \<lparr>businessName = name, skipOnboarding = skip\<rparr>"
  by (simp_all add: example_post_def)


section \<open>The update payload and the business name\<close>

text \<open>
  C1. The claim is that every request that passes validation leads to an update payload
  that sets the business name to the submitted value, in demo mode as outside it. The run
  below is a demo-mode request with the business name \<^verbatim>\<open>Acme Ltd\<close> and the choice to
  skip onboarding. It passes validation, and the one update that the handler sends carries
  the placeholder business type, business profile, identity fields and terms-of-service
  acceptances, but its \<^verbatim>\<open>business_profile\<close> holds the merchant category code, the
  product description and the URL only: the object that sets \<^verbatim>\<open>name\<close> was replaced
  by the spread, and the submitted name is sent nowhere. Outside demo mode the same
  payload expression holds the name.
\<close>

theorem demo_update_omits_business_name:
  "fst (handler (example_env True) (example_post (Some ''Acme Ltd'') (Some True))) =
     [AccountsUpdate ''acct_1''
        (JObj [(''business_profile'',
                JObj [(''mcc'', JStr ''5734''),
                      (''product_description'', JStr ''Some demo product''),
                      (''url'', JStr ''https://some-company.com'')]),
               (''business_type'', JStr ''individual''),
               (''individual'',
                JObj [(''address'',
                       JObj [(''line1'', JStr ''address_full_match''),
                             (''city'', JStr ''South San Francisco''),
                             (''state'', JStr ''CA''),
                             (''postal_code'', JStr ''94080''),
                             (''country'', JStr ''US'')]),
                      (''dob'', JObj [(''day'', JNum 1), (''month'', JNum 1), (''year'', JNum 1901)]),
                      (''email'', JStr ''jo@example.com''),
                      (''first_name'', JStr ''John''),
                      (''last_name'', JStr ''Smith''),
                      (''phone'', JStr ''0000000000'')]),
               (''tos_acceptance'', JObj [(''date'', JNum 1700000000), (''ip'', JStr ''127.0.0.1'')]),
               (''settings'',
                JObj [(''card_issuing'',
                       JObj [(''tos_acceptance'',
                              JObj [(''date'', JNum 1700000000), (''ip'', JStr ''127.0.0.1'')])]),
                      (''treasury'',
                       JObj [(''tos_acceptance'',
                              JObj [(''date'', JNum 1700000000), (''ip'', JStr ''127.0.0.1'')])])])])]
   \<and> validate (validationSchema True \<lparr>businessName = Some ''Acme Ltd'', skipOnboarding = Some True\<rparr>)
      = Inr ()
   \<and> get_path [''business_profile'', ''name'']
        (onboardingData (example_env True) ''jo@example.com'' (JStr ''Acme Ltd'') (JBool True)) = None
   \<and> get_path [''business_profile'', ''name'']
        (onboardingData (example_env False) ''jo@example.com'' (JStr ''Acme Ltd'') (JBool True))
      = Some (JStr ''Acme Ltd'')"
proof -
  have demo: "isDemoMode (example_env True)" and plain: "\<not> isDemoMode (example_env False)"
    by (simp_all add: example_env_simps)
  have valid: "validationSchema True \<lparr>businessName = Some ''Acme Ltd'', skipOnboarding = Some True\<rparr> = []"
    by (simp add: validationSchema_eq)
  have run: "onboard (example_env True) (example_post (Some ''Acme Ltd'') (Some True)) =
               ([AccountsUpdate ''acct_1''
                   (onboardingData (example_env True) ''jo@example.com'' (JStr ''Acme Ltd'') (JBool True))],
                Inr (redirect_response ''/''))"
    using valid
    by (simp add: onboard_def example_post_simps example_env_simps example_session_def
        validate_def js_string_def js_bool_def)
  have calls: "fst (handler (example_env True) (example_post (Some ''Acme Ltd'') (Some True))) =
               [AccountsUpdate ''acct_1''
                   (onboardingData (example_env True) ''jo@example.com'' (JStr ''Acme Ltd'') (JBool True))]"
    by (simp add: handler_def run example_post_simps)
  show ?thesis
    by (simp add: calls valid validate_def onboardingData_demo [OF demo] onboardingData_plain [OF plain]
        example_env_simps)
qed

section \<open>Valid requests\<close>

text \<open>
  C2. Demo mode is off and a POST request passes validation; the session is found and the
  payments platform answers both requests. Then the handler sends exactly one account
  update, whose payload is the business name and nothing else, after it exactly one
  request for an onboarding URL, and responds with status 200, success and that URL as the
  redirect target.
\<close>

theorem non_demo_post_updates_name_then_requests_url:
  assumes post: "http_method req = Some ''POST''"
    and demo: "\<not> isDemoMode env"
    and body: "body req = Some b"
    and valid: "validate (validationSchema (isDemoMode env) b) = Inr ()"
    and name: "businessName b = Some name"
    and sess: "getSessionForServerSide env req = Inr s"
    and upd: "accounts_update env (accountId s)
                (JObj [(''business_profile'', JObj [(''name'', JStr name)])]) = Inr ()"
    and url: "createAccountOnboardingUrl env (accountId s) = Inr onboardingUrl"
  shows "handler env req =
           ([AccountsUpdate (accountId s) (JObj [(''business_profile'', JObj [(''name'', JStr name)])]),
             CreateAccountOnboardingUrl (accountId s)],
            \<lparr>status = 200,
             json = \<lparr>success = True, data = Some \<lparr>redirectUrl = onboardingUrl\<rparr>, error = None\<rparr>\<rparr>)"
proof -
  have payload: "onboardingData env (email s) (js_string (businessName b)) (js_bool (skipOnboarding b))
                 = JObj [(''business_profile'', JObj [(''name'', JStr name)])]"
    using demo name by (simp add: onboardingData_plain js_string_def)
  show ?thesis
    using post demo body valid sess upd url
    by (simp add: handler_def onboard_def payload response_defs)
qed

theorem non_demo_post_updates_name_then_requests_url_witness:
  "handler (example_env False) (example_post (Some ''Acme Ltd'') None) =
     ([AccountsUpdate ''acct_1'' (JObj [(''business_profile'', JObj [(''name'', JStr ''Acme Ltd'')])]),
       CreateAccountOnboardingUrl ''acct_1''],
      \<lparr>status = 200,
       json = \<lparr>success = True,
               data = Some \<lparr>redirectUrl = ''https://connect.example/setup/acct_1''\<rparr>,
               error = None\<rparr>\<rparr>)"
proof -
  let ?b = "\<lparr>businessName = Some ''Acme Ltd'', skipOnboarding = None\<rparr>"
  let ?req = "example_post (Some ''Acme Ltd'') None"
  have post: "http_method ?req = Some ''POST''"
    by (simp add: example_post_simps)
  have demo: "\<not> isDemoMode (example_env False)"
    by (simp add: example_env_def)
  have body: "body ?req = Some ?b"
    by (simp add: example_post_simps)
  have valid: "validate (validationSchema (isDemoMode (example_env False)) ?b) = Inr ()"
    by (simp add: validate_def validationSchema_eq example_env_simps)
  have name: "businessName ?b = Some ''Acme Ltd''"
    by simp
  have sess: "getSessionForServerSide (example_env False) ?req = Inr example_session"
    by (simp add: example_env_simps)
  have upd: "accounts_update (example_env False) (accountId example_session)
               (JObj [(''business_profile'', JObj [(''name'', JStr ''Acme Ltd'')])]) = Inr ()"
    by (simp add: example_env_simps)
  have url: "createAccountOnboardingUrl (example_env False) (accountId example_session)
             = Inr ''https://connect.example/setup/acct_1''"
    by (simp add: example_env_simps)
  show ?thesis
    using non_demo_post_updates_name_then_requests_url [OF post demo body valid name sess upd url]
    by (simp add: example_session_def)
qed

text \<open>
  C3. Demo mode is on and a POST request passes validation with the choice to skip
  onboarding; the session is found and the payments platform accepts the update. Then the
  handler sends one account update and no request for an onboarding URL, and responds with
  status 200, success and the home page \<^verbatim>\<open>/\<close> as the redirect target. The update
  carries the placeholder identity: the business type, the individual with the test
  address, date of birth, names and phone number and the session's email, and the
  terms-of-service acceptances.
\<close>

theorem demo_skip_post_fakes_kyc_and_redirects_home:
  assumes post: "http_method req = Some ''POST''"
    and demo: "isDemoMode env"
    and body: "body req = Some b"
    and valid: "validate (validationSchema (isDemoMode env) b) = Inr ()"
    and skip: "skipOnboarding b = Some True"
    and sess: "getSessionForServerSide env req = Inr s"
    and upd: "accounts_update env (accountId s)
                (onboardingData env (email s) (js_string (businessName b)) (JBool True)) = Inr ()"
  shows "handler env req =
           ([AccountsUpdate (accountId s)
               (onboardingData env (email s) (js_string (businessName b)) (JBool True))],
            \<lparr>status = 200,
             json = \<lparr>success = True, data = Some \<lparr>redirectUrl = ''/''\<rparr>, error = None\<rparr>\<rparr>)
         \<and> (\<forall>account. CreateAccountOnboardingUrl account \<notin> set (fst (handler env req)))
         \<and> get_prop ''business_type''
              (onboardingData env (email s) (js_string (businessName b)) (JBool True))
            = Some (JStr ''individual'')
         \<and> get_prop ''individual''
              (onboardingData env (email s) (js_string (businessName b)) (JBool True))
            = Some (JObj [(''address'',
                           JObj [(''line1'', JStr ''address_full_match''),
                                 (''city'', JStr ''South San Francisco''),
                                 (''state'', JStr ''CA''),
                                 (''postal_code'', JStr ''94080''),
                                 (''country'', JStr ''US'')]),
                          (''dob'', JObj [(''day'', JNum 1), (''month'', JNum 1), (''year'', JNum 1901)]),
                          (''email'', JStr (email s)),
                          (''first_name'', JStr ''John''),
                          (''last_name'', JStr ''Smith''),
                          (''phone'', JStr ''0000000000'')])
         \<and> get_prop ''tos_acceptance''
              (onboardingData env (email s) (js_string (businessName b)) (JBool True))
            = Some (TOS_ACCEPTANCE env)
         \<and> get_prop ''settings''
              (onboardingData env (email s) (js_string (businessName b)) (JBool True))
            = Some (JObj [(''card_issuing'', JObj [(''tos_acceptance'', TOS_ACCEPTANCE env)]),
                          (''treasury'', JObj [(''tos_acceptance'', TOS_ACCEPTANCE env)])])"
proof -
  let ?payload = "onboardingData env (email s) (js_string (businessName b)) (JBool True)"
  have ok: "validationSchema (isDemoMode env) b = []"
    using valid by (simp add: validate_Inr_iff)
  have run: "handler env req =
               ([AccountsUpdate (accountId s) ?payload],
                \<lparr>status = 200,
                 json = \<lparr>success = True, data = Some \<lparr>redirectUrl = ''/''\<rparr>, error = None\<rparr>\<rparr>)"
    using post demo skip upd
    by (simp add: handler_def onboard_valid [OF body ok sess] js_bool_def response_defs)
  have fields: "get_prop ''business_type'' ?payload = Some (JStr ''individual'')"
    "get_prop ''tos_acceptance'' ?payload = Some (TOS_ACCEPTANCE env)"
    "get_prop ''settings'' ?payload
     = Some (JObj [(''card_issuing'', JObj [(''tos_acceptance'', TOS_ACCEPTANCE env)]),
                   (''treasury'', JObj [(''tos_acceptance'', TOS_ACCEPTANCE env)])])"
    by (simp_all add: onboardingData_demo [OF demo])
  have individual: "get_prop ''individual'' ?payload
            = Some (JObj [(''address'',
                           JObj [(''line1'', JStr ''address_full_match''),
                                 (''city'', JStr ''South San Francisco''),
                                 (''state'', JStr ''CA''),
                                 (''postal_code'', JStr ''94080''),
                                 (''country'', JStr ''US'')]),
                          (''dob'', JObj [(''day'', JNum 1), (''month'', JNum 1), (''year'', JNum 1901)]),
                          (''email'', JStr (email s)),
                          (''first_name'', JStr ''John''),
                          (''last_name'', JStr ''Smith''),
                          (''phone'', JStr ''0000000000'')])"
    by (simp add: onboardingData_demo [OF demo])
  have none: "\<forall>account. CreateAccountOnboardingUrl account \<notin> set (fst (handler env req))"
    by (simp add: run)
  show ?thesis
    using run none fields individual by simp
qed

theorem demo_skip_post_fakes_kyc_and_redirects_home_witness:
  "handler (example_env True) (example_post (Some ''Corner Bakery'') (Some True)) =
     ([AccountsUpdate ''acct_1''
         (onboardingData (example_env True) ''jo@example.com'' (JStr ''Corner Bakery'') (JBool True))],
      \<lparr>status = 200,
       json = \<lparr>success = True, data = Some \<lparr>redirectUrl = ''/''\<rparr>, error = None\<rparr>\<rparr>)
   \<and> get_prop ''business_type''
        (onboardingData (example_env True) ''jo@example.com'' (JStr ''Corner Bakery'') (JBool True))
      = Some (JStr ''individual'')"
proof -
  let ?b = "\<lparr>businessName = Some ''Corner Bakery'', skipOnboarding = Some True\<rparr>"
  let ?req = "example_post (Some ''Corner Bakery'') (Some True)"
  have post: "http_method ?req = Some ''POST''"
    by (simp add: example_post_simps)
  have demo: "isDemoMode (example_env True)"
    by (simp add: example_env_simps)
  have body: "body ?req = Some ?b"
    by (simp add: example_post_simps)
  have valid: "validate (validationSchema (isDemoMode (example_env True)) ?b) = Inr ()"
    by (simp add: validate_def validationSchema_eq)
  have skip: "skipOnboarding ?b = Some True"
    by simp
  have sess: "getSessionForServerSide (example_env True) ?req = Inr example_session"
    by (simp add: example_env_simps)
  have upd: "accounts_update (example_env True) (accountId example_session)
               (onboardingData (example_env True) (email example_session)
                  (js_string (businessName ?b)) (JBool True)) = Inr ()"
    by (simp add: example_env_simps)
  show ?thesis
    using demo_skip_post_fakes_kyc_and_redirects_home [OF post demo body valid skip sess upd]
    by (simp add: example_session_def js_string_def)
qed

text \<open>
  C10. In demo mode the payload has a top-level \<^verbatim>\<open>tos_acceptance\<close> exactly when the
  skip-onboarding choice is \<^verbatim>\<open>true\<close>, and then it is the terms-of-service constant;
  the card-issuing and the treasury acceptance inside \<^verbatim>\<open>settings\<close> are in every
  demo-mode payload, whatever the choice, absent or not.
\<close>

theorem demo_tos_acceptance_placement:
  assumes demo: "isDemoMode env"
  shows "(''tos_acceptance'' \<in> set (keys (onboardingData env em name (js_bool skip)))
            \<longleftrightarrow> skip = Some True)
         \<and> (skip = Some True \<longrightarrow>
              get_prop ''tos_acceptance'' (onboardingData env em name (js_bool skip))
              = Some (TOS_ACCEPTANCE env))
         \<and> get_path [''settings'', ''card_issuing'', ''tos_acceptance'']
              (onboardingData env em name (js_bool skip)) = Some (TOS_ACCEPTANCE env)
         \<and> get_path [''settings'', ''treasury'', ''tos_acceptance'']
              (onboardingData env em name (js_bool skip)) = Some (TOS_ACCEPTANCE env)"
  by (simp add: onboardingData_demo [OF demo] truthy_js_bool)

theorem demo_tos_acceptance_placement_witness:
  "''tos_acceptance'' \<notin> set (keys (onboardingData (example_env True) ''jo@example.com''
                                      (JStr ''Acme Ltd'') (js_bool (Some False))))
   \<and> ''tos_acceptance'' \<in> set (keys (onboardingData (example_env True) ''jo@example.com''
                                      (JStr ''Acme Ltd'') (js_bool (Some True))))
   \<and> get_prop ''tos_acceptance''
        (onboardingData (example_env True) ''jo@example.com'' (JStr ''Acme Ltd'') (js_bool (Some True)))
      = Some (JObj [(''date'', JNum 1700000000), (''ip'', JStr ''127.0.0.1'')])
   \<and> get_path [''settings'', ''card_issuing'', ''tos_acceptance'']
        (onboardingData (example_env True) ''jo@example.com'' (JStr ''Acme Ltd'') (js_bool (Some False)))
      = Some (JObj [(''date'', JNum 1700000000), (''ip'', JStr ''127.0.0.1'')])
   \<and> get_path [''settings'', ''treasury'', ''tos_acceptance'']
        (onboardingData (example_env True) ''jo@example.com'' (JStr ''Acme Ltd'') (js_bool (Some False)))
      = Some (JObj [(''date'', JNum 1700000000), (''ip'', JStr ''127.0.0.1'')])"
proof -
  have demo: "isDemoMode (example_env True)"
    by (simp add: example_env_simps)
  show ?thesis
    using demo_tos_acceptance_placement [OF demo, of "''jo@example.com''" "JStr ''Acme Ltd''" "Some False"]
      demo_tos_acceptance_placement [OF demo, of "''jo@example.com''" "JStr ''Acme Ltd''" "Some True"]
    by (simp add: example_env_simps)
qed

section \<open>Rejected requests\<close>

text \<open>
  C4. A POST request whose business name is empty or longer than 255 characters, the
  session being found, is answered with status 400 and \<^verbatim>\<open>success: false\<close>, and
  nothing is sent to the payments platform. The message is that of the error thrown for
  all collected failures: the failure of the name and, in demo mode without a
  skip-onboarding choice, the failure of the choice as well. With the one failure the
  message is its text; with the two it is \<^verbatim>\<open>2 errors occurred\<close>, which counts both
  and is not the text of the first.
\<close>

theorem invalid_business_name_is_client_error:
  assumes post: "http_method req = Some ''POST''"
    and body: "body req = Some b"
    and name: "businessName b = Some name"
    and bad: "name = [] \<or> 255 < length name"
    and sess: "getSessionForServerSide env req = Inr s"
  shows "validationSchema (isDemoMode env) b =
           (if name = [] then [''Business name is required'']
            else [''businessName must be at most 255 characters''])
           @ (if isDemoMode env \<and> skipOnboarding b = None
              then [''Skip onboarding choice required''] else [])
         \<and> handler env req =
             ([], \<lparr>status = 400,
                   json = \<lparr>success = False, data = None,
                           error = Some
                             \<lparr>message = validation_message (validationSchema (isDemoMode env) b),
                              details = None\<rparr>\<rparr>\<rparr>)
         \<and> validation_message (validationSchema (isDemoMode env) b) =
             (if isDemoMode env \<and> skipOnboarding b = None then ''2 errors occurred''
              else if name = [] then ''Business name is required''
              else ''businessName must be at most 255 characters'')"
proof -
  have errs: "validationSchema (isDemoMode env) b =
           (if name = [] then [''Business name is required'']
            else [''businessName must be at most 255 characters''])
           @ (if isDemoMode env \<and> skipOnboarding b = None
              then [''Skip onboarding choice required''] else [])"
    using name bad by (auto simp: validationSchema_eq split: option.split)
  then have nonempty: "validationSchema (isDemoMode env) b \<noteq> []"
    by (simp split: if_splits)
  have run: "handler env req =
             ([], \<lparr>status = 400,
                   json = \<lparr>success = False, data = None,
                           error = Some
                             \<lparr>message = validation_message (validationSchema (isDemoMode env) b),
                              details = None\<rparr>\<rparr>\<rparr>)"
    using post sess by (simp add: handler_def onboard_invalid [OF body nonempty] response_defs)
  have msg: "validation_message (validationSchema (isDemoMode env) b) =
             (if isDemoMode env \<and> skipOnboarding b = None then ''2 errors occurred''
              else if name = [] then ''Business name is required''
              else ''businessName must be at most 255 characters'')"
    by (simp add: errs validation_message_two del: validation_message.simps(3))
  show ?thesis
    using errs run msg by (simp only: simp_thms)
qed

theorem invalid_business_name_is_client_error_witness:
  "handler (example_env True) (example_post (Some []) None) =
     ([], \<lparr>status = 400,
           json = \<lparr>success = False, data = None,
                   error = Some \<lparr>message = ''2 errors occurred'', details = None\<rparr>\<rparr>\<rparr>)
   \<and> validationSchema True \<lparr>businessName = Some [], skipOnboarding = None\<rparr> =
       [''Business name is required'', ''Skip onboarding choice required'']"
proof -
  let ?b = "\<lparr>businessName = Some [], skipOnboarding = None\<rparr>"
  let ?req = "example_post (Some []) None"
  have post: "http_method ?req = Some ''POST''"
    by (simp add: example_post_simps)
  have body: "body ?req = Some ?b"
    by (simp add: example_post_simps)
  have name: "businessName ?b = Some []"
    by simp
  have bad: "([]::string) = [] \<or> 255 < length ([]::string)"
    by simp
  have sess: "getSessionForServerSide (example_env True) ?req = Inr example_session"
    by (simp add: example_env_simps)
  show ?thesis
    using invalid_business_name_is_client_error [OF post body name bad sess]
    by (simp add: example_env_simps validation_message_two del: validation_message.simps(3))
qed

text \<open>
  C5. In demo mode a POST request without the skip-onboarding choice fails validation,
  whatever its business name, with \<^verbatim>\<open>Skip onboarding choice required\<close> among the
  failures; the session being found, it is answered with status 400 and
  \<^verbatim>\<open>success: false\<close> and nothing is sent to the payments platform. Outside demo mode
  a request without the choice, its business name being acceptable, passes validation.
\<close>

theorem skip_flag_required_only_in_demo:
  "(http_method req = Some ''POST'' \<and> isDemoMode env \<and> body req = Some b \<and> skipOnboarding b = None
      \<and> getSessionForServerSide env req = Inr s
    \<longrightarrow> ''Skip onboarding choice required'' \<in> set (validationSchema (isDemoMode env) b)
        \<and> validate (validationSchema (isDemoMode env) b) \<noteq> Inr ()
        \<and> handler env req =
            ([], \<lparr>status = 400,
                  json = \<lparr>success = False, data = None,
                          error = Some
                            \<lparr>message = validation_message (validationSchema (isDemoMode env) b),
                             details = None\<rparr>\<rparr>\<rparr>))
   \<and> (\<not> isDemoMode env' \<and> skipOnboarding b' = None \<and> businessName b' = Some name
        \<and> name \<noteq> [] \<and> length name \<le> 255
      \<longrightarrow> validate (validationSchema (isDemoMode env') b') = Inr ())"
proof (intro conjI impI)
  assume a: "http_method req = Some ''POST'' \<and> isDemoMode env \<and> body req = Some b
             \<and> skipOnboarding b = None \<and> getSessionForServerSide env req = Inr s"
  then have body: "body req = Some b" by simp
  from a show mem: "''Skip onboarding choice required'' \<in> set (validationSchema (isDemoMode env) b)"
    by (simp add: validationSchema_eq)
  then have nonempty: "validationSchema (isDemoMode env) b \<noteq> []"
    by auto
  then show "validate (validationSchema (isDemoMode env) b) \<noteq> Inr ()"
    by (simp add: validate_def)
  from a show "handler env req =
            ([], \<lparr>status = 400,
                  json = \<lparr>success = False, data = None,
                          error = Some
                            \<lparr>message = validation_message (validationSchema (isDemoMode env) b),
                             details = None\<rparr>\<rparr>\<rparr>)"
    by (simp add: handler_def onboard_invalid [OF body nonempty] response_defs)
next
  assume "\<not> isDemoMode env' \<and> skipOnboarding b' = None \<and> businessName b' = Some name
          \<and> name \<noteq> [] \<and> length name \<le> 255"
  then show "validate (validationSchema (isDemoMode env') b') = Inr ()"
    by (simp add: validate_def validationSchema_eq)
qed

theorem skip_flag_required_only_in_demo_witness:
  "handler (example_env True) (example_post (Some ''Acme Ltd'') None) =
     ([], \<lparr>status = 400,
           json = \<lparr>success = False, data = None,
                   error = Some \<lparr>message = ''Skip onboarding choice required'', details = None\<rparr>\<rparr>\<rparr>)
   \<and> validate (validationSchema (isDemoMode (example_env False))
        \<lparr>businessName = Some ''Acme Ltd'', skipOnboarding = None\<rparr>) = Inr ()"
proof -
  let ?b = "\<lparr>businessName = Some ''Acme Ltd'', skipOnboarding = None\<rparr>"
  let ?req = "example_post (Some ''Acme Ltd'') None"
  have demo_case: "http_method ?req = Some ''POST'' \<and> isDemoMode (example_env True) \<and> body ?req = Some ?b
      \<and> skipOnboarding ?b = None
      \<and> getSessionForServerSide (example_env True) ?req = Inr example_session"
    by (simp add: example_post_simps example_env_simps)
  have plain_case: "\<not> isDemoMode (example_env False) \<and> skipOnboarding ?b = None
      \<and> businessName ?b = Some ''Acme Ltd'' \<and> ''Acme Ltd'' \<noteq> [] \<and> length ''Acme Ltd'' \<le> 255"
    by (simp add: example_env_simps)
  have errs: "validationSchema True ?b = [''Skip onboarding choice required'']"
    by (simp add: validationSchema_eq)
  show ?thesis
    using skip_flag_required_only_in_demo
            [of ?req "example_env True" ?b example_session "example_env False" ?b "''Acme Ltd''"]
      demo_case plain_case
    by (simp add: example_env_simps errs)
qed

text \<open>
  C7. A request whose method is not POST is answered with status 400,
  \<^verbatim>\<open>success: false\<close> and the message \<^verbatim>\<open>Bad Request\<close>; neither an account update
  nor a request for an onboarding URL is sent.
\<close>

theorem non_post_is_bad_request:
  "http_method req \<noteq> Some ''POST'' \<Longrightarrow>
   handler env req =
     ([], \<lparr>status = 400,
           json = \<lparr>success = False, data = None,
                   error = Some \<lparr>message = ''Bad Request'', details = None\<rparr>\<rparr>\<rparr>)"
  by (simp add: handler_def response_defs)

theorem non_post_is_bad_request_witness:
  "handler (example_env False) \<lparr>http_method = Some ''GET'', body = None\<rparr> =
     ([], \<lparr>status = 400,
           json = \<lparr>success = False, data = None,
                   error = Some \<lparr>message = ''Bad Request'', details = None\<rparr>\<rparr>\<rparr>)"
proof -
  have get: "http_method \<lparr>http_method = Some ''GET'', body = None\<rparr> \<noteq> Some ''POST''"
    by simp
  show ?thesis
    by (rule non_post_is_bad_request [OF get])
qed

text \<open>
  C9. A POST request that fails validation sends nothing to the payments platform:
  neither an account update nor a request for an onboarding URL. The session being found,
  the response is the client error with the message of the validation error.
\<close>

theorem validation_failure_sends_nothing:
  assumes post: "http_method req = Some ''POST''"
    and body: "body req = Some b"
    and invalid: "validate (validationSchema (isDemoMode env) b) = Inl msg"
  shows "fst (handler env req) = []
         \<and> (\<forall>s. getSessionForServerSide env req = Inr s \<longrightarrow>
                snd (handler env req) =
                  \<lparr>status = 400,
                   json = \<lparr>success = False, data = None,
                           error = Some \<lparr>message = msg, details = None\<rparr>\<rparr>\<rparr>)"
proof -
  from invalid have bad: "validationSchema (isDemoMode env) b \<noteq> []"
    and msg: "msg = validation_message (validationSchema (isDemoMode env) b)"
    by (simp_all add: validate_Inl_iff)
  show ?thesis
    using post
    by (simp add: handler_def onboard_invalid [OF body bad] msg response_defs split: sum.split)
qed

theorem validation_failure_sends_nothing_witness:
  "fst (handler (example_env True) (example_post None (Some False))) = []
   \<and> snd (handler (example_env True) (example_post None (Some False))) =
       \<lparr>status = 400,
        json = \<lparr>success = False, data = None,
                error = Some \<lparr>message = ''Business name is required'', details = None\<rparr>\<rparr>\<rparr>"
proof -
  let ?b = "\<lparr>businessName = None, skipOnboarding = Some False\<rparr>"
  let ?req = "example_post None (Some False)"
  have post: "http_method ?req = Some ''POST''"
    by (simp add: example_post_simps)
  have body: "body ?req = Some ?b"
    by (simp add: example_post_simps)
  have invalid: "validate (validationSchema (isDemoMode (example_env True)) ?b)
                 = Inl ''Business name is required''"
    by (simp add: validate_def validationSchema_eq)
  have sess: "getSessionForServerSide (example_env True) ?req = Inr example_session"
    by (simp add: example_env_simps)
  show ?thesis
    using validation_failure_sends_nothing [OF post body invalid] sess by simp
qed


section \<open>Failures other than validation\<close>

text \<open>
  C8. In a POST request an exception can leave \<^verbatim>\<open>onboard\<close> at four places: the
  session lookup, the destructuring of an absent body, the account update, and the request
  for an onboarding URL (reached unless demo mode skips it). Wherever it is thrown, the
  handler answers with status 500 and \<^verbatim>\<open>success: false\<close>, the error's message as
  the message and its stack as the details.
\<close>

theorem thrown_error_is_server_error:
  assumes post: "http_method req = Some ''POST''"
    and thrown:
      "getSessionForServerSide env req = Inl e
       \<or> (\<exists>s. getSessionForServerSide env req = Inr s \<and> body req = None \<and> e = body_type_error env)
       \<or> (\<exists>s b. getSessionForServerSide env req = Inr s \<and> body req = Some b
             \<and> validate (validationSchema (isDemoMode env) b) = Inr ()
             \<and> accounts_update env (accountId s)
                 (onboardingData env (email s) (js_string (businessName b))
                    (js_bool (skipOnboarding b))) = Inl e)
       \<or> (\<exists>s b. getSessionForServerSide env req = Inr s \<and> body req = Some b
             \<and> validate (validationSchema (isDemoMode env) b) = Inr ()
             \<and> accounts_update env (accountId s)
                 (onboardingData env (email s) (js_string (businessName b))
                    (js_bool (skipOnboarding b))) = Inr ()
             \<and> \<not> (isDemoMode env \<and> skipOnboarding b = Some True)
             \<and> createAccountOnboardingUrl env (accountId s) = Inl e)"
  shows "snd (handler env req) =
           \<lparr>status = 500,
            json = \<lparr>success = False, data = None,
                    error = Some \<lparr>message = exn_message e, details = exn_stack e\<rparr>\<rparr>\<rparr>"
proof -
  have "snd (onboard env req) = Inl e"
    using thrown
  proof (elim disjE exE conjE)
    assume "getSessionForServerSide env req = Inl e"
    then show ?thesis by (simp add: onboard_def)
  next
    fix s
    assume "getSessionForServerSide env req = Inr s" "body req = None" "e = body_type_error env"
    then show ?thesis by (simp add: onboard_def)
  next
    fix s b
    assume sess: "getSessionForServerSide env req = Inr s" and body: "body req = Some b"
      and valid: "validate (validationSchema (isDemoMode env) b) = Inr ()"
      and upd: "accounts_update env (accountId s)
                 (onboardingData env (email s) (js_string (businessName b))
                    (js_bool (skipOnboarding b))) = Inl e"
    from valid have ok: "validationSchema (isDemoMode env) b = []"
      by (simp add: validate_Inr_iff)
    show ?thesis
      using upd by (simp add: onboard_valid [OF body ok sess])
  next
    fix s b
    assume sess: "getSessionForServerSide env req = Inr s" and body: "body req = Some b"
      and valid: "validate (validationSchema (isDemoMode env) b) = Inr ()"
      and upd: "accounts_update env (accountId s)
                 (onboardingData env (email s) (js_string (businessName b))
                    (js_bool (skipOnboarding b))) = Inr ()"
      and noskip: "\<not> (isDemoMode env \<and> skipOnboarding b = Some True)"
      and url: "createAccountOnboardingUrl env (accountId s) = Inl e"
    from valid have ok: "validationSchema (isDemoMode env) b = []"
      by (simp add: validate_Inr_iff)
    show ?thesis
      using upd noskip url
      by (auto simp: onboard_valid [OF body ok sess] truthy_js_bool Let_def)
  qed
  then show ?thesis
    using post by (cases "onboard env req") (simp add: handler_def response_defs)
qed

theorem thrown_error_is_server_error_witness:
  "snd (handler
          (example_env False
             \<lparr>accounts_update := \<lambda>account params.
                Inl \<lparr>exn_message = ''No such account: acct_1'',
                     exn_stack = Some ''Error: No such account: acct_1 at accounts.update''\<rparr>\<rparr>)
          (example_post (Some ''Acme Ltd'') None)) =
     \<lparr>status = 500,
      json = \<lparr>success = False, data = None,
              error = Some \<lparr>message = ''No such account: acct_1'',
                            details = Some ''Error: No such account: acct_1 at accounts.update''\<rparr>\<rparr>\<rparr>"
proof -
  let ?e = "\<lparr>exn_message = ''No such account: acct_1'',
             exn_stack = Some ''Error: No such account: acct_1 at accounts.update''\<rparr>"
  let ?env = "example_env False \<lparr>accounts_update := \<lambda>account params. Inl ?e\<rparr>"
  let ?b = "\<lparr>businessName = Some ''Acme Ltd'', skipOnboarding = None\<rparr>"
  let ?req = "example_post (Some ''Acme Ltd'') None"
  have post: "http_method ?req = Some ''POST''"
    by (simp add: example_post_simps)
  have thrown: "getSessionForServerSide ?env ?req = Inr example_session \<and> body ?req = Some ?b
             \<and> validate (validationSchema (isDemoMode ?env) ?b) = Inr ()
             \<and> accounts_update ?env (accountId example_session)
                 (onboardingData ?env (email example_session) (js_string (businessName ?b))
                    (js_bool (skipOnboarding ?b))) = Inl ?e"
    by (simp add: example_post_simps example_env_simps validate_def validationSchema_eq)
  then have places: "getSessionForServerSide ?env ?req = Inl ?e
       \<or> (\<exists>s. getSessionForServerSide ?env ?req = Inr s \<and> body ?req = None \<and> ?e = body_type_error ?env)
       \<or> (\<exists>s b. getSessionForServerSide ?env ?req = Inr s \<and> body ?req = Some b
             \<and> validate (validationSchema (isDemoMode ?env) b) = Inr ()
             \<and> accounts_update ?env (accountId s)
                 (onboardingData ?env (email s) (js_string (businessName b))
                    (js_bool (skipOnboarding b))) = Inl ?e)
       \<or> (\<exists>s b. getSessionForServerSide ?env ?req = Inr s \<and> body ?req = Some b
             \<and> validate (validationSchema (isDemoMode ?env) b) = Inr ()
             \<and> accounts_update ?env (accountId s)
                 (onboardingData ?env (email s) (js_string (businessName b))
                    (js_bool (skipOnboarding b))) = Inr ()
             \<and> \<not> (isDemoMode ?env \<and> skipOnboarding b = Some True)
             \<and> createAccountOnboardingUrl ?env (accountId s) = Inl ?e)"
    by blast
  show ?thesis
    using thrown_error_is_server_error [OF post places] by simp
qed


section \<open>Password rules\<close>

text \<open>
  C6. The password \<^verbatim>\<open>abc\<close> violates three rules at once, and validation reports the
  three of them, each with a message of its own: the minimal length, the digit and the
  uppercase letter. The password \<^verbatim>\<open>Abcdefg1\<close> violates no rule.
\<close>

theorem password_abc_three_messages_Abcdefg1_none:
  "password_errors (Some ''abc'') =
     [''Password must have at least 8 characters'',
      ''Your password must have at least 1 digit character'',
      ''Your password must have at least 1 uppercase character'']
   \<and> distinct (password_errors (Some ''abc''))
   \<and> password_errors (Some ''Abcdefg1'') = []
   \<and> validate (password_errors (Some ''Abcdefg1'')) = Inr ()"
  by (simp add: password_errors_def password_schema_def schema_defs char_class_defs
      getCharacterValidationError_def validate_def)


end
